theory Spec2Isabelle
  imports Main "HOL-Library.Sublist" "HOL-Library.Product_Lexorder"
begin

section \<open>Data model\<close>

text \<open>
  The timetable functions of \<^verbatim>\<open>streamlit_app_advanced.py\<close> work on plain dictionaries.
  A session is \<^verbatim>\<open>{"day": ..., "start_time": ..., "end_time": ...}\<close>, a class entry is
  \<^verbatim>\<open>{"name": ..., "group": ..., "schedule": [session, ...]}\<close>.  After
  \<^verbatim>\<open>parse_time\<close> the two times are \<^verbatim>\<open>datetime.time\<close> values, of which the code
  uses only the comparisons \<^verbatim>\<open>max\<close>, \<^verbatim>\<open>min\<close> and \<^verbatim>\<open><\<close>; the model keeps the
  time type abstract as any linear order \<open>'t\<close>.  The concrete examples use pairs
  \<open>(hour, minute)\<close> in their lexicographic order, which is the order of
  \<^verbatim>\<open>datetime.time\<close> on values parsed from \<^verbatim>\<open>"%H:%M"\<close>.
\<close>

record 't session =
  day :: string
  start_time :: 't
  end_time :: 't

record 't class_entry =
  name :: string
  group :: string
  schedule :: "'t session list"

type_synonym clock = "nat \<times> nat"

text \<open>
  One element of \<^verbatim>\<open>all_combinations_with_score\<close>: the tuple
  \<^verbatim>\<open>(score, num_classes, combo, has_all_mandatory, has_free_days(combo, free_days))\<close>.
\<close>

type_synonym 't scored = "int \<times> nat \<times> 't class_entry list \<times> bool \<times> bool"

text \<open>
  The two keys of \<^verbatim>\<open>st.session_state\<close> the timetable creator writes.  \<open>None\<close> is an
  absent key.
\<close>

record 't session_state =
  all_schedule_options :: "'t scored list option"
  current_schedule_index :: "int option"

text \<open>What a run shows: the warning, error or success message it ends with.\<close>

datatype notice =
  No_classes_found
  | Select_at_least_one_class
  | No_valid_schedules
  | Found_combinations nat

section \<open>Conflict detection\<close>

text \<open>\<^verbatim>\<open>def times_overlap(start1, end1, start2, end2):
    return max(start1, start2) < min(end1, end2)\<close>\<close>

definition times_overlap :: "'t::linorder \<Rightarrow> 't \<Rightarrow> 't \<Rightarrow> 't \<Rightarrow> bool" where
  "times_overlap start1 end1 start2 end2 \<longleftrightarrow> max start1 start2 < min end1 end2"

text \<open>
  \<^verbatim>\<open>has_conflict\<close> runs two nested loops over the sessions of both classes and returns
  \<^verbatim>\<open>True\<close> at the first pair on the same day whose times overlap, \<^verbatim>\<open>False\<close> when the
  loops end.
\<close>

definition has_conflict :: "'t::linorder class_entry \<Rightarrow> 't class_entry \<Rightarrow> bool" where
  "has_conflict class1 class2 =
     list_ex (\<lambda>session1.
       list_ex (\<lambda>session2.
         day session1 = day session2 \<and>
         times_overlap (start_time session1) (end_time session1)
                       (start_time session2) (end_time session2))
       (schedule class2))
     (schedule class1)"

text \<open>\<^verbatim>\<open>class_names = [cls["name"] for cls in combination]
return len(class_names) == len(set(class_names))\<close>
  The length of \<^verbatim>\<open>set(class_names)\<close> is the number of different names.\<close>

definition has_unique_classes :: "'t class_entry list \<Rightarrow> bool" where
  "has_unique_classes combination =
     (let class_names = map name combination
      in length class_names = length (remdups class_names))"

text \<open>\<^verbatim>\<open>scheduled_days = {session["day"] for cls in combination for session in cls["schedule"]}
return all(day not in scheduled_days for day in free_days)\<close>\<close>

definition has_free_days :: "'t class_entry list \<Rightarrow> string list \<Rightarrow> bool" where
  "has_free_days combination free_days =
     (let scheduled_days = concat (map (\<lambda>cls. map day (schedule cls)) combination)
      in list_all (\<lambda>d. d \<notin> set scheduled_days) free_days)"

text \<open>
  \<^verbatim>\<open>get_unique_time_slots\<close> adds the pair \<^verbatim>\<open>(start_time, end_time)\<close> of every session
  to a set and returns \<^verbatim>\<open>sorted(time_slots, key=lambda x: x[0])\<close>.  The set keeps one
  copy of each pair (\<open>remdups\<close>); the sort is stable and compares the start only.
  The order in which Python iterates the set is not fixed, so nothing below depends on
  the order of two slots with the same start.
\<close>

definition get_unique_time_slots :: "'t::linorder class_entry list \<Rightarrow> ('t \<times> 't) list" where
  "get_unique_time_slots classes =
     (let time_slots =
            remdups (concat (map (\<lambda>cls. map (\<lambda>session. (start_time session, end_time session))
                                            (schedule cls)) classes))
      in sort_key fst time_slots)"

section \<open>Enumeration and scoring\<close>

text \<open>
  \<^verbatim>\<open>itertools.combinations(iterable, r)\<close>: the \<open>r\<close>-element selections of the input,
  each in input order, listed in lexicographic order of the chosen positions.
\<close>

fun combinations :: "'a list \<Rightarrow> nat \<Rightarrow> 'a list list" where
  "combinations xs 0 = [[]]"
| "combinations [] (Suc r) = []"
| "combinations (x # xs) (Suc r) =
     map ((#) x) (combinations xs r) @ combinations xs (Suc r)"

text \<open>
  The flag \<^verbatim>\<open>has_time_conflict\<close> of the enumeration loop: set when
  \<^verbatim>\<open>has_conflict(cls1, cls2)\<close> holds for some \<^verbatim>\<open>cls1, cls2 in combinations(combo, 2)\<close>.
  The messages collected next to it are shown nowhere and are left out.
\<close>

definition has_time_conflict :: "'t::linorder class_entry list \<Rightarrow> bool" where
  "has_time_conflict combo =
     list_ex (\<lambda>pair. case pair of [cls1, cls2] \<Rightarrow> has_conflict cls1 cls2 | _ \<Rightarrow> False)
       (combinations combo 2)"

text \<open>
  The priority score of an accepted combination, lines 2640 to 2672: the tuple appended
  to \<^verbatim>\<open>all_combinations_with_score\<close>.
\<close>

definition scored_entry ::
  "string list \<Rightarrow> string list \<Rightarrow> nat \<Rightarrow> 't class_entry list \<Rightarrow> 't scored" where
  "scored_entry mandatory_classes free_days num_classes combo =
     (let score = 0;
          score = score + int num_classes * 1000;
          score = (if has_free_days combo free_days then score + 500 else score);
          mandatory_count = length (filter (\<lambda>cls. name cls \<in> set mandatory_classes) combo);
          score = score + int mandatory_count * 200;
          has_all_mandatory =
            list_all (\<lambda>mandatory_class. list_ex (\<lambda>cls. name cls = mandatory_class) combo)
              mandatory_classes;
          score = (if has_all_mandatory then score + 300 else score)
      in (score, num_classes, combo, has_all_mandatory, has_free_days combo free_days))"

text \<open>
  The body of the inner loop for one \<^verbatim>\<open>combo\<close>: \<open>None\<close> is \<^verbatim>\<open>continue\<close> (the
  combination is excluded), \<open>Some\<close> is the appended tuple.
\<close>

definition examine_combo ::
  "string list \<Rightarrow> string list \<Rightarrow> nat \<Rightarrow> 't::linorder class_entry list \<Rightarrow> 't scored option" where
  "examine_combo mandatory_classes free_days num_classes combo =
     (if has_time_conflict combo then None
      else if \<not> has_unique_classes combo then None
      else Some (scored_entry mandatory_classes free_days num_classes combo))"

text \<open>\<^verbatim>\<open>max_classes = min(6, len(filtered_classes))\<close>, \<^verbatim>\<open>min_classes = 1\<close>.\<close>

definition max_classes :: "'a list \<Rightarrow> nat" where
  "max_classes filtered_classes = min 6 (length filtered_classes)"

definition min_classes :: nat where
  "min_classes = 1"

text \<open>
  The two nested loops, lines 2616 to 2672:
  \<^verbatim>\<open>for num_classes in range(max_classes, min_classes - 1, -1)\<close> over
  \<^verbatim>\<open>combinations(filtered_classes, num_classes)\<close>.  The result is the list
  \<^verbatim>\<open>all_combinations_with_score\<close> in the order of the appends.
\<close>

definition all_combinations_with_score ::
  "string list \<Rightarrow> string list \<Rightarrow> 't::linorder class_entry list \<Rightarrow> 't scored list" where
  "all_combinations_with_score mandatory_classes free_days filtered_classes =
     concat (map (\<lambda>num_classes.
                List.map_filter (examine_combo mandatory_classes free_days num_classes)
                  (combinations filtered_classes num_classes))
             (rev [min_classes ..< Suc (max_classes filtered_classes)]))"

text \<open>
  \<^verbatim>\<open>all_combinations_with_score.sort(key=lambda x: x[0], reverse=True)\<close>.  Python's sort
  is stable; with \<^verbatim>\<open>reverse=True\<close> it reverses the list, sorts it stably in ascending
  order of the key, and reverses the result.
\<close>

definition sort_by_score :: "'t scored list \<Rightarrow> 't scored list" where
  "sort_by_score xs = rev (sort_key fst (rev xs))"

text \<open>
  Lines 2674 to 2688: with no accepted combination the run shows an error and returns;
  otherwise the list is sorted and stored, and the index is set to 0.
\<close>

definition store_schedule_options ::
  "'t scored list \<Rightarrow> 't session_state \<Rightarrow> notice \<times> 't session_state" where
  "store_schedule_options combos st =
     (if combos = [] then (No_valid_schedules, st)
      else
        let sorted_combos = sort_by_score combos
        in (Found_combinations (length sorted_combos),
            st\<lparr>all_schedule_options := Some sorted_combos,
               current_schedule_index := Some 0\<rparr>))"

text \<open>
  The branch of \<^verbatim>\<open>timetable_creator\<close> under \<^verbatim>\<open>if generate_button\<close>, lines 2587 to
  2716.  No statement of it can raise, so the \<^verbatim>\<open>except\<close> clause has no branch here.
\<close>

definition generate_schedules ::
  "string list \<Rightarrow> string list \<Rightarrow> 't::linorder class_entry list \<Rightarrow> 't session_state
     \<Rightarrow> notice \<times> 't session_state" where
  "generate_schedules mandatory_classes free_days parsed_classes st =
     (let filtered_classes =
            (if mandatory_classes \<noteq> []
             then filter (\<lambda>cls. name cls \<in> set mandatory_classes) parsed_classes
             else parsed_classes)
      in if filtered_classes = [] then (Select_at_least_one_class, st)
         else store_schedule_options
                (all_combinations_with_score mandatory_classes free_days filtered_classes) st)"

text \<open>
  \<^verbatim>\<open>timetable_creator\<close> for a logged-in id, as one run of the page: \<open>classes\<close> is what
  \<^verbatim>\<open>get_classes_from_db(id)\<close> returned, here with the times already parsed (parsing
  happens after the emptiness check and maps the list element by element).  The run
  ends at the first \<^verbatim>\<open>return\<close>; without a press of the button nothing is generated.
\<close>

definition timetable_creator ::
  "'t::linorder class_entry list \<Rightarrow> string list \<Rightarrow> string list \<Rightarrow> bool \<Rightarrow> 't session_state
     \<Rightarrow> notice option \<times> 't session_state" where
  "timetable_creator classes mandatory_classes free_days generate_button st =
     (if classes = [] then (Some No_classes_found, st)
      else if generate_button
        then (case generate_schedules mandatory_classes free_days classes st of
                (n, st') \<Rightarrow> (Some n, st'))
        else (None, st))"

section \<open>Example data\<close>

definition mon_9_10 :: "clock session" where
  "mon_9_10 = \<lparr>day = ''Monday'', start_time = (9, 0), end_time = (10, 0)\<rparr>"

definition mon_10_11 :: "clock session" where
  "mon_10_11 = \<lparr>day = ''Monday'', start_time = (10, 0), end_time = (11, 0)\<rparr>"

definition mon_930_1030 :: "clock session" where
  "mon_930_1030 = \<lparr>day = ''Monday'', start_time = (9, 30), end_time = (10, 30)\<rparr>"

definition tue_9_10 :: "clock session" where
  "tue_9_10 = \<lparr>day = ''Tuesday'', start_time = (9, 0), end_time = (10, 0)\<rparr>"

definition M1 :: "clock class_entry" where
  "M1 = \<lparr>name = ''CS101'', group = ''A'', schedule = [mon_9_10]\<rparr>"

definition M2 :: "clock class_entry" where
  "M2 = \<lparr>name = ''CS101'', group = ''B'', schedule = [mon_930_1030]\<rparr>"

definition M3 :: "clock class_entry" where
  "M3 = \<lparr>name = ''CS102'', group = ''A'', schedule = [tue_9_10]\<rparr>"

text \<open>
  Seven classes of seven different courses, one hour each on Monday from 08:00, each
  starting when the one before ends.
\<close>

definition hour_class :: "string \<Rightarrow> nat \<Rightarrow> clock class_entry" where
  "hour_class course h =
     \<lparr>name = course, group = ''A'',
      schedule = [\<lparr>day = ''Monday'', start_time = (h, 0), end_time = (Suc h, 0)\<rparr>]\<rparr>"

definition seven_classes :: "clock class_entry list" where
  "seven_classes =
     [hour_class ''CS101'' 8, hour_class ''CS102'' 9, hour_class ''CS103'' 10,
      hour_class ''CS104'' 11, hour_class ''CS105'' 12, hour_class ''CS106'' 13,
      hour_class ''CS107'' 14]"

section \<open>Properties of the conflict test\<close>

lemma times_overlap_iff:
  "times_overlap s1 e1 s2 e2 \<longleftrightarrow> s1 < e1 \<and> s1 < e2 \<and> s2 < e1 \<and> s2 < e2"
  by (auto simp: times_overlap_def)

lemma times_overlap_sym:
  "times_overlap s1 e1 s2 e2 = times_overlap s2 e2 s1 e1"
  by (simp add: times_overlap_def max.commute min.commute)

lemma has_conflict_iff:
  "has_conflict c1 c2 \<longleftrightarrow>
     (\<exists>a \<in> set (schedule c1). \<exists>b \<in> set (schedule c2).
        day a = day b \<and>
        times_overlap (start_time a) (end_time a) (start_time b) (end_time b))"
  by (simp add: has_conflict_def list_ex_iff)

lemma has_conflict_sym: "has_conflict c1 c2 = has_conflict c2 c1"
  unfolding has_conflict_iff using times_overlap_sym by metis

text \<open>
  C1.  The overlap test on two meetings \<open>a\<close> and \<open>b\<close> is the conflict test on two
  classes that meet exactly once, at \<open>a\<close> and at \<open>b\<close>.  It holds if and only if both
  meetings are on the same day and \<open>max\<close> of the starts is before \<open>min\<close> of the ends.
  When the days agree and one meeting ends exactly when the other starts, the test is
  false in both argument orders.
\<close>

theorem overlap_same_day_and_boundary:
  fixes a b :: "'t::linorder session"
  shows "(has_conflict (c1\<lparr>schedule := [a]\<rparr>) (c2\<lparr>schedule := [b]\<rparr>) \<longleftrightarrow>
            day a = day b \<and> max (start_time a) (start_time b) < min (end_time a) (end_time b))
       \<and> (day a = day b \<and> (end_time a = start_time b \<or> end_time b = start_time a) \<longrightarrow>
            \<not> has_conflict (c1\<lparr>schedule := [a]\<rparr>) (c2\<lparr>schedule := [b]\<rparr>)
          \<and> \<not> has_conflict (c2\<lparr>schedule := [b]\<rparr>) (c1\<lparr>schedule := [a]\<rparr>))"
  by (auto simp: has_conflict_def times_overlap_def)

theorem overlap_same_day_and_boundary_witness:
  "day mon_9_10 = day mon_10_11 \<and> end_time mon_9_10 = start_time mon_10_11
   \<and> \<not> has_conflict (M1\<lparr>schedule := [mon_9_10]\<rparr>) (M3\<lparr>schedule := [mon_10_11]\<rparr>)
   \<and> \<not> has_conflict (M3\<lparr>schedule := [mon_10_11]\<rparr>) (M1\<lparr>schedule := [mon_9_10]\<rparr>)"
  using overlap_same_day_and_boundary
    [where a = mon_9_10 and b = mon_10_11 and ?c1.0 = M1 and ?c2.0 = M3]
  by (simp add: mon_9_10_def mon_10_11_def)

section \<open>The enumeration\<close>

lemma combinations_Suc_0: "combinations xs (Suc 0) = map (\<lambda>x. [x]) xs"
  by (induction xs) auto

lemma set_combinations_2_Cons:
  "set (combinations (x # xs) 2) = (\<lambda>y. [x, y]) ` set xs \<union> set (combinations xs 2)"
  by (simp add: numeral_2_eq_2 combinations_Suc_0 image_image)

lemma has_time_conflict_Cons:
  "has_time_conflict (x # xs) \<longleftrightarrow> (\<exists>y \<in> set xs. has_conflict x y) \<or> has_time_conflict xs"
  unfolding has_time_conflict_def list_ex_iff set_combinations_2_Cons
  by (simp add: bex_Un)

lemma has_time_conflict_Nil: "\<not> has_time_conflict []"
  by (simp add: has_time_conflict_def numeral_2_eq_2)

lemma has_time_conflict_iff:
  "has_time_conflict combo \<longleftrightarrow> \<not> sorted_wrt (\<lambda>a b. \<not> has_conflict a b) combo"
  by (induction combo) (auto simp: has_time_conflict_Cons has_time_conflict_Nil)

lemma has_unique_classes_iff: "has_unique_classes combo \<longleftrightarrow> distinct (map name combo)"
  unfolding has_unique_classes_def Let_def
  by (metis card_distinct distinct_card length_remdups_card_conv)

lemma combinations_iff:
  "ys \<in> set (combinations xs r) \<longleftrightarrow> subseq ys xs \<and> length ys = r"
proof (induction xs r arbitrary: ys rule: combinations.induct)
  case (1 xs)
  then show ?case by auto
next
  case (2 r)
  then show ?case by auto
next
  case (3 x xs r)
  show ?case
  proof (cases ys)
    case Nil
    then show ?thesis using 3 by auto
  next
    case (Cons y ys')
    then show ?thesis using 3 by (auto dest: subseq_Cons')
  qed
qed

lemma examine_combo_Some:
  "examine_combo m f k combo = Some e \<longleftrightarrow>
     sorted_wrt (\<lambda>a b. \<not> has_conflict a b) combo \<and> distinct (map name combo)
     \<and> e = scored_entry m f k combo"
  by (auto simp: examine_combo_def has_time_conflict_iff has_unique_classes_iff)

lemma candidate_sizes: "set (rev [min_classes ..< Suc (max_classes xs)]) = {k. 1 \<le> k \<and> k \<le> min 6 (length xs)}"
  by (auto simp: min_classes_def max_classes_def)

lemma in_set_map_filter:
  "y \<in> set (List.map_filter f xs) \<longleftrightarrow> (\<exists>x \<in> set xs. f x = Some y)"
  by (induction xs) (auto split: option.splits)

lemma in_all_combinations_with_score:
  "e \<in> set (all_combinations_with_score m f pool) \<longleftrightarrow>
     (\<exists>combo. subseq combo pool \<and> 1 \<le> length combo \<and> length combo \<le> min 6 (length pool)
        \<and> sorted_wrt (\<lambda>a b. \<not> has_conflict a b) combo \<and> distinct (map name combo)
        \<and> e = scored_entry m f (length combo) combo)"
  (is "?L \<longleftrightarrow> ?R")
proof
  assume ?L
  then obtain k combo where "k \<in> {k. 1 \<le> k \<and> k \<le> min 6 (length pool)}"
    and "combo \<in> set (combinations pool k)" and "examine_combo m f k combo = Some e"
    unfolding all_combinations_with_score_def set_concat set_map candidate_sizes
    by (auto simp: in_set_map_filter)
  then show ?R
    by (auto simp: examine_combo_Some combinations_iff)
next
  assume ?R
  then obtain combo where c: "subseq combo pool" "1 \<le> length combo"
    "length combo \<le> min 6 (length pool)"
    "sorted_wrt (\<lambda>a b. \<not> has_conflict a b) combo" "distinct (map name combo)"
    "e = scored_entry m f (length combo) combo"
    by blast
  have "length combo \<in> {k. 1 \<le> k \<and> k \<le> min 6 (length pool)}"
    using c by simp
  moreover have "combo \<in> set (combinations pool (length combo))"
    using c by (simp add: combinations_iff)
  moreover have "examine_combo m f (length combo) combo = Some e"
    using c by (simp add: examine_combo_Some)
  ultimately show ?L
    unfolding all_combinations_with_score_def set_concat set_map candidate_sizes
    by (auto simp: in_set_map_filter)
qed

lemma map_filter_sizes:
  "e \<in> set (List.map_filter (examine_combo m f k) xs) \<Longrightarrow> fst (snd e) = k"
  by (auto simp: in_set_map_filter examine_combo_Some scored_entry_def Let_def)

lemma sorted_wrt_concat_map:
  assumes "sorted_wrt (\<lambda>i j. \<forall>a \<in> set (g i). \<forall>b \<in> set (g j). R a b) ks"
    and "\<And>k. k \<in> set ks \<Longrightarrow> sorted_wrt R (g k)"
  shows "sorted_wrt R (concat (map g ks))"
  using assms by (induction ks) (auto simp: sorted_wrt_append)

lemma enumeration_sizes_descending:
  "sorted_wrt (\<lambda>a b. fst (snd b) \<le> fst (snd a)) (all_combinations_with_score m f pool)"
  unfolding all_combinations_with_score_def
proof (rule sorted_wrt_concat_map)
  have "sorted_wrt (<) [min_classes ..< Suc (max_classes pool)]"
    by (rule sorted_wrt_upt)
  then have "sorted_wrt (\<lambda>j i. \<forall>a \<in> set (List.map_filter (examine_combo m f i) (combinations pool i)).
          \<forall>b \<in> set (List.map_filter (examine_combo m f j) (combinations pool j)).
            fst (snd b) \<le> fst (snd a)) [min_classes ..< Suc (max_classes pool)]"
    by (rule sorted_wrt_mono_rel[rotated]) (auto dest!: map_filter_sizes)
  then show "sorted_wrt (\<lambda>i j. \<forall>a \<in> set (List.map_filter (examine_combo m f i) (combinations pool i)).
          \<forall>b \<in> set (List.map_filter (examine_combo m f j) (combinations pool j)).
            fst (snd b) \<le> fst (snd a)) (rev [min_classes ..< Suc (max_classes pool)])"
    by (simp add: sorted_wrt_rev)
next
  fix k
  have "sorted_wrt (\<lambda>a b. True) (List.map_filter (examine_combo m f k) (combinations pool k))"
    by (induction "List.map_filter (examine_combo m f k) (combinations pool k)") simp_all
  then show "sorted_wrt (\<lambda>a b. fst (snd b) \<le> fst (snd a))
          (List.map_filter (examine_combo m f k) (combinations pool k))"
    by (rule sorted_wrt_mono_rel[rotated]) (auto dest!: map_filter_sizes)
qed

section \<open>The stable descending sort\<close>

lemma insort_key_stable_lex:
  assumes "sorted_wrt (\<lambda>a b. f a < f b \<or> f a = f b \<and> R a b) ys"
    and "\<forall>y \<in> set ys. R x y"
  shows "sorted_wrt (\<lambda>a b. f a < f b \<or> f a = f b \<and> R a b) (insort_key f x ys)"
  using assms by (induction ys) (auto simp: set_insort_key)

lemma sort_key_stable_lex:
  assumes "sorted_wrt R xs"
  shows "sorted_wrt (\<lambda>a b. f a < f b \<or> f a = f b \<and> R a b) (sort_key f xs)"
  using assms by (induction xs) (auto intro: insort_key_stable_lex)

lemma sort_by_score_lex:
  assumes "sorted_wrt R xs"
  shows "sorted_wrt (\<lambda>a b. fst b < fst a \<or> fst a = fst b \<and> R a b) (sort_by_score xs)"
proof -
  have "sorted_wrt (\<lambda>a b. R b a) (rev xs)"
    using assms by (simp add: sorted_wrt_rev)
  from sort_key_stable_lex[OF this, of fst]
  have "sorted_wrt (\<lambda>a b. fst a < fst b \<or> fst a = fst b \<and> R b a) (sort_key fst (rev xs))" .
  then show ?thesis
    unfolding sort_by_score_def sorted_wrt_rev
    by (rule sorted_wrt_mono_rel[rotated]) auto
qed

lemma sort_by_score_stable:
  "filter (\<lambda>e. fst e = s) (sort_by_score xs) = filter (\<lambda>e. fst e = s) xs"
  by (simp add: sort_by_score_def sort_key_stable flip: rev_filter)


section \<open>The score\<close>

lemma has_free_days_iff:
  "has_free_days combo free_days \<longleftrightarrow>
     (\<forall>d \<in> set free_days. \<forall>cls \<in> set combo. \<forall>s \<in> set (schedule cls). day s \<noteq> d)"
  by (auto simp: has_free_days_def list_all_iff)

lemma has_all_mandatory_iff:
  "list_all (\<lambda>mandatory_class. list_ex (\<lambda>cls. name cls = mandatory_class) combo) mandatory
     \<longleftrightarrow> set mandatory \<subseteq> name ` set combo"
  by (auto simp: list_all_iff list_ex_iff)

lemma mandatory_count_card:
  assumes "distinct (map name combo)"
  shows "length (filter (\<lambda>cls. name cls \<in> set mandatory) combo)
           = card {cls \<in> set combo. name cls \<in> set mandatory}"
proof -
  have "distinct combo"
    using assms by (simp add: distinct_map)
  then have "length (filter (\<lambda>cls. name cls \<in> set mandatory) combo)
               = card ({cls. name cls \<in> set mandatory} \<inter> set combo)"
    by (rule distinct_length_filter)
  also have "{cls. name cls \<in> set mandatory} \<inter> set combo
               = {cls \<in> set combo. name cls \<in> set mandatory}"
    by blast
  finally show ?thesis .
qed

text \<open>
  C2.  Every tuple the enumeration appends for a combination \<open>c\<close> carries the size
  \<open>k\<close> of \<open>c\<close> and the score \<open>k * 1000\<close>, plus 500 when no session of \<open>c\<close> is on a
  free day, plus 200 for each class of \<open>c\<close> whose name is a mandatory class, plus 300
  when every mandatory class has a class of that name in \<open>c\<close>.
\<close>

theorem score_of_enumerated_combination:
  assumes "(score, k, c, has_all, free_ok)
             \<in> set (all_combinations_with_score mandatory free_days pool)"
  shows "k = length c \<and>
         score = int k * 1000
           + (if \<forall>d \<in> set free_days. \<forall>cls \<in> set c. \<forall>s \<in> set (schedule cls). day s \<noteq> d
              then 500 else 0)
           + 200 * int (card {cls \<in> set c. name cls \<in> set mandatory})
           + (if set mandatory \<subseteq> name ` set c then 300 else 0)"
proof -
  from assms obtain combo where d: "distinct (map name combo)"
    and e: "(score, k, c, has_all, free_ok) = scored_entry mandatory free_days (length combo) combo"
    unfolding in_all_combinations_with_score by blast
  from e have c: "c = combo" and k: "k = length combo"
    by (simp_all add: scored_entry_def Let_def)
  from e show ?thesis
    unfolding c k scored_entry_def Let_def
    by (simp add: has_free_days_iff has_all_mandatory_iff mandatory_count_card[OF d])
qed


theorem score_of_enumerated_combination_witness:
  "(2700, 2, [M1, M3], True, False)
     \<in> set (all_combinations_with_score [''CS101'', ''CS102''] [''Monday''] [M1, M2, M3])
   \<and> (2 = length [M1, M3] \<and>
      2700 = int 2 * 1000
           + (if \<forall>d \<in> set [''Monday'']. \<forall>cls \<in> set [M1, M3]. \<forall>s \<in> set (schedule cls). day s \<noteq> d
              then 500 else 0)
           + 200 * int (card {cls \<in> set [M1, M3]. name cls \<in> set [''CS101'', ''CS102'']})
           + (if set [''CS101'', ''CS102''] \<subseteq> name ` set [M1, M3] then 300 else 0))"
proof -
  have h: "(2700, 2, [M1, M3], True, False)
     \<in> set (all_combinations_with_score [''CS101'', ''CS102''] [''Monday''] [M1, M2, M3])"
    by code_simp
  show ?thesis
    by (rule conjI[OF h score_of_enumerated_combination[OF h]])
qed

section \<open>The three-section pool\<close>

lemma combos_of_map_filter:
  "map (\<lambda>e. fst (snd (snd e))) (List.map_filter (examine_combo m f k) xs)
     = filter (\<lambda>c. \<not> has_time_conflict c \<and> has_unique_classes c) xs"
  by (induction xs) (auto simp: examine_combo_def scored_entry_def Let_def)

lemma combos_of_enumeration:
  "map (\<lambda>e. fst (snd (snd e))) (all_combinations_with_score m f pool)
     = concat (map (\<lambda>k. filter (\<lambda>c. \<not> has_time_conflict c \<and> has_unique_classes c)
                             (combinations pool k))
                   (rev [min_classes ..< Suc (max_classes pool)]))"
  by (simp add: all_combinations_with_score_def map_concat comp_def combos_of_map_filter)

text \<open>
  C3.  On the pool \<open>M1\<close> (CS101 A, Monday 09:00 to 10:00), \<open>M2\<close> (CS101 B, Monday
  09:30 to 10:30), \<open>M3\<close> (CS102 A, Tuesday 09:00 to 10:00) the enumeration accepts, for
  any mandatory classes and free days, exactly \<open>{M1, M3}\<close>, \<open>{M2, M3}\<close>, \<open>{M1}\<close>,
  \<open>{M2}\<close>, \<open>{M3}\<close>, in this order; the two subsets that hold both \<open>M1\<close> and \<open>M2\<close>
  are excluded.
\<close>

theorem three_section_pool:
  "map (\<lambda>e. fst (snd (snd e))) (all_combinations_with_score mandatory free_days [M1, M2, M3])
     = [[M1, M3], [M2, M3], [M1], [M2], [M3]]
   \<and> examine_combo mandatory free_days 2 [M1, M2] = None
   \<and> examine_combo mandatory free_days 3 [M1, M2, M3] = None"
proof -
  have "concat (map (\<lambda>k. filter (\<lambda>c. \<not> has_time_conflict c \<and> has_unique_classes c)
                             (combinations [M1, M2, M3] k))
                   (rev [min_classes ..< Suc (max_classes [M1, M2, M3])]))
          = [[M1, M3], [M2, M3], [M1], [M2], [M3]]"
    by code_simp
  moreover have "has_time_conflict [M1, M2]" "has_time_conflict [M1, M2, M3]"
    by code_simp+
  ultimately show ?thesis
    by (simp add: combos_of_enumeration examine_combo_def)
qed

section \<open>Order of the stored list\<close>

text \<open>
  The sorted list is in descending order of the pair (score, size), and for every score
  \<open>s\<close> the entries with that score stand in it as they stood before the sort.
\<close>

lemma sort_by_score_order:
  "sorted_wrt (\<lambda>a b. (fst b, fst (snd b)) \<le> (fst a, fst (snd a)))
     (sort_by_score (all_combinations_with_score mandatory free_days pool))
   \<and> filter (\<lambda>e. fst e = s) (sort_by_score (all_combinations_with_score mandatory free_days pool))
       = filter (\<lambda>e. fst e = s) (all_combinations_with_score mandatory free_days pool)"
proof -
  have "sorted_wrt (\<lambda>a b. fst b < fst a \<or> fst a = fst b \<and> fst (snd b) \<le> fst (snd a))
     (sort_by_score (all_combinations_with_score mandatory free_days pool))"
    by (rule sort_by_score_lex) (rule enumeration_sizes_descending)
  then have "sorted_wrt (\<lambda>a b. (fst b, fst (snd b)) \<le> (fst a, fst (snd a)))
     (sort_by_score (all_combinations_with_score mandatory free_days pool))"
    by (rule sorted_wrt_mono_rel[rotated]) auto
  then show ?thesis
    by (simp add: sort_by_score_stable)
qed

text \<open>
  A pool that is not empty always yields an accepted combination, since a combination
  of one class has no pair to conflict and no second name.
\<close>

lemma singletons_accepted:
  assumes "pool \<noteq> []"
  shows "all_combinations_with_score mandatory free_days pool \<noteq> []"
proof -
  from assms obtain x xs where "pool = x # xs"
    by (cases pool) auto
  then have "scored_entry mandatory free_days (length [x]) [x]
               \<in> set (all_combinations_with_score mandatory free_days pool)"
    unfolding in_all_combinations_with_score by (intro exI[of _ "[x]"]) simp
  then show ?thesis
    by auto
qed

text \<open>
  What a run that reports its combinations has written: the sorted enumeration of the
  classes kept for generation, and the index 0.  Every run whose kept classes are not
  empty is such a run.
\<close>

lemma generate_schedules_stores:
  assumes "generate_schedules mandatory free_days parsed_classes st = (Found_combinations n, st')"
  shows "st' = st\<lparr>all_schedule_options :=
                    Some (sort_by_score (all_combinations_with_score mandatory free_days
                            (if mandatory \<noteq> []
                             then filter (\<lambda>cls. name cls \<in> set mandatory) parsed_classes
                             else parsed_classes))),
                  current_schedule_index := Some 0\<rparr>
       \<and> n = length (sort_by_score (all_combinations_with_score mandatory free_days
                            (if mandatory \<noteq> []
                             then filter (\<lambda>cls. name cls \<in> set mandatory) parsed_classes
                             else parsed_classes)))"
  using assms
  by (auto simp: generate_schedules_def store_schedule_options_def Let_def split: if_splits)

lemma generate_schedules_found:
  assumes "(if mandatory \<noteq> []
            then filter (\<lambda>cls. name cls \<in> set mandatory) parsed_classes
            else parsed_classes) \<noteq> []"
  shows "\<exists>n st'. generate_schedules mandatory free_days parsed_classes st = (Found_combinations n, st')"
  using assms singletons_accepted
  by (auto simp: generate_schedules_def store_schedule_options_def Let_def split: if_splits)

text \<open>
  C4.  After a run of the generation that reports its combinations, the list stored in
  the session state is in descending order of the pair (score, size): the score
  decreases, and of two entries with the same score the larger comes first.  For every
  score \<open>s\<close> the stored entries with that score stand as they stood in the
  enumeration.  The index is 0 and the reported number is the length of the stored list.
  The run is a function of the classes, the mandatory classes and the free days, so a
  second run on the same input stores the same list.
\<close>

theorem stored_result_set_order:
  assumes "generate_schedules mandatory free_days parsed_classes st = (Found_combinations n, st')"
  shows "\<exists>res. all_schedule_options st' = Some res
           \<and> current_schedule_index st' = Some 0
           \<and> n = length res
           \<and> sorted_wrt (\<lambda>a b. (fst b, fst (snd b)) \<le> (fst a, fst (snd a))) res
           \<and> (\<forall>s. filter (\<lambda>e. fst e = s) res
                  = filter (\<lambda>e. fst e = s)
                      (all_combinations_with_score mandatory free_days
                         (if mandatory \<noteq> []
                          then filter (\<lambda>cls. name cls \<in> set mandatory) parsed_classes
                          else parsed_classes)))"
proof -
  let ?pool = "if mandatory \<noteq> []
               then filter (\<lambda>cls. name cls \<in> set mandatory) parsed_classes
               else parsed_classes"
  let ?res = "sort_by_score (all_combinations_with_score mandatory free_days ?pool)"
  from generate_schedules_stores[OF assms]
  have st': "st' = st\<lparr>all_schedule_options := Some ?res, current_schedule_index := Some 0\<rparr>"
    and n: "n = length ?res"
    by blast+
  have "all_schedule_options st' = Some ?res" and "current_schedule_index st' = Some 0"
    by (simp_all add: st')
  moreover have "sorted_wrt (\<lambda>a b. (fst b, fst (snd b)) \<le> (fst a, fst (snd a))) ?res"
    and "\<forall>s. filter (\<lambda>e. fst e = s) ?res
           = filter (\<lambda>e. fst e = s) (all_combinations_with_score mandatory free_days ?pool)"
    using sort_by_score_order[of mandatory free_days ?pool] by blast+
  ultimately show ?thesis
    using n by blast
qed

theorem stored_result_set_order_witness:
  "generate_schedules [] [''Monday''] [M1, M3]
     \<lparr>all_schedule_options = None, current_schedule_index = None\<rparr>
   = (Found_combinations 3,
      \<lparr>all_schedule_options =
         Some [(2300, 2, [M1, M3], True, False), (1800, 1, [M3], True, True),
               (1300, 1, [M1], True, False)],
       current_schedule_index = Some 0\<rparr>)
   \<and> sorted_wrt (\<lambda>a b. (fst b, fst (snd b)) \<le> (fst a, fst (snd a)))
       [(2300 :: int, 2 :: nat, [M1, M3], True, False), (1800, 1, [M3], True, True),
        (1300, 1, [M1], True, False)]"
proof -
  have h: "generate_schedules [] [''Monday''] [M1, M3]
     \<lparr>all_schedule_options = None, current_schedule_index = None\<rparr>
   = (Found_combinations 3,
      \<lparr>all_schedule_options =
         Some [(2300, 2, [M1, M3], True, False), (1800, 1, [M3], True, True),
               (1300, 1, [M1], True, False)],
       current_schedule_index = Some 0\<rparr>)"
    by code_simp
  from stored_result_set_order[OF h] obtain res where
    "all_schedule_options
       \<lparr>all_schedule_options =
         Some [(2300, 2, [M1, M3], True, False), (1800, 1, [M3], True, True),
               (1300, 1, [M1], True, False)],
        current_schedule_index = Some 0\<rparr> = Some res"
    and s: "sorted_wrt (\<lambda>a b. (fst b, fst (snd b)) \<le> (fst a, fst (snd a))) res"
    by blast
  then have "res = [(2300, 2, [M1, M3], True, False), (1800, 1, [M3], True, True),
               (1300, 1, [M1], True, False)]"
    by simp
  with s have "sorted_wrt (\<lambda>a b. (fst b, fst (snd b)) \<le> (fst a, fst (snd a)))
       [(2300 :: int, 2 :: nat, [M1, M3], True, False), (1800, 1, [M3], True, True),
        (1300, 1, [M1], True, False)]"
    by simp
  with h show ?thesis
    by (rule conjI)
qed

section \<open>Sizes tried by the enumeration\<close>

lemma enumerated_combo_length:
  assumes "e \<in> set (all_combinations_with_score m f pool)"
  shows "1 \<le> fst (snd e) \<and> fst (snd e) \<le> min 6 (length pool)
         \<and> length (fst (snd (snd e))) = fst (snd e)"
  using assms unfolding in_all_combinations_with_score
  by (auto simp: scored_entry_def Let_def)

text \<open>
  C5, as the code has it.  The bound on the size is the constant 6 of
  \<^verbatim>\<open>max_classes = min(6, len(filtered_classes))\<close>; there is no \<open>max_size\<close> input.
  Every selection of the pool in pool order that has between 1 and
  \<open>min 6 (length pool)\<close> classes, no two of which conflict and no two of which have
  the same name, is the combination of some appended tuple.  The sizes of the appended
  tuples never increase along the list, and each lies between 1 and
  \<open>min 6 (length pool)\<close>.
\<close>

theorem every_valid_subset_up_to_six:
  assumes "subseq combo pool"
    and "1 \<le> length combo" and "length combo \<le> min 6 (length pool)"
    and "sorted_wrt (\<lambda>a b. \<not> has_conflict a b) combo"
    and "distinct (map name combo)"
  shows "combo \<in> set (map (\<lambda>e. fst (snd (snd e)))
                        (all_combinations_with_score mandatory free_days pool))
       \<and> sorted_wrt (\<lambda>a b. fst (snd b) \<le> fst (snd a))
            (all_combinations_with_score mandatory free_days pool)
       \<and> list_all (\<lambda>e. 1 \<le> fst (snd e) \<and> fst (snd e) \<le> min 6 (length pool))
            (all_combinations_with_score mandatory free_days pool)"
proof -
  have "scored_entry mandatory free_days (length combo) combo
          \<in> set (all_combinations_with_score mandatory free_days pool)"
    unfolding in_all_combinations_with_score using assms by blast
  moreover have "fst (snd (snd (scored_entry mandatory free_days (length combo) combo))) = combo"
    by (simp add: scored_entry_def Let_def)
  ultimately have "combo \<in> set (map (\<lambda>e. fst (snd (snd e)))
                        (all_combinations_with_score mandatory free_days pool))"
    unfolding set_map by (metis imageI)
  moreover have "list_all (\<lambda>e. 1 \<le> fst (snd e) \<and> fst (snd e) \<le> min 6 (length pool))
            (all_combinations_with_score mandatory free_days pool)"
    unfolding list_all_iff using enumerated_combo_length by blast
  ultimately show ?thesis
    using enumeration_sizes_descending by blast
qed

theorem every_valid_subset_up_to_six_witness:
  "subseq [M2, M3] [M1, M2, M3]
   \<and> 1 \<le> length [M2, M3] \<and> length [M2, M3] \<le> min 6 (length [M1, M2, M3])
   \<and> sorted_wrt (\<lambda>a b. \<not> has_conflict a b) [M2, M3]
   \<and> distinct (map name [M2, M3])
   \<and> [M2, M3] \<in> set (map (\<lambda>e. fst (snd (snd e)))
                        (all_combinations_with_score [] [''Monday''] [M1, M2, M3]))"
proof -
  have h1: "subseq [M2, M3] [M1, M2, M3]"
    by simp
  have h2: "1 \<le> length [M2, M3]" and h3: "length [M2, M3] \<le> min 6 (length [M1, M2, M3])"
    by simp_all
  have h4: "sorted_wrt (\<lambda>a b. \<not> has_conflict a b) [M2, M3]"
    by (simp add: has_conflict_def M2_def M3_def mon_930_1030_def tue_9_10_def)
  have h5: "distinct (map name [M2, M3])"
    by (simp add: M2_def M3_def)
  show ?thesis
    using h1 h2 h3 h4 h5 every_valid_subset_up_to_six[OF h1 h2 h3 h4 h5, of "[]" "[''Monday'']"]
    by blast
qed

text \<open>
  C5 as stated fails for a size bound of 7: the seven classes of \<open>seven_classes\<close>
  neither conflict nor share a name, the whole pool has 7 \<open>\<le> min 7 7\<close> classes, and
  the enumeration does not produce it.
\<close>

theorem seven_classes_not_enumerated:
  "\<not> has_time_conflict seven_classes \<and> has_unique_classes seven_classes
   \<and> subseq seven_classes seven_classes
   \<and> length seven_classes \<le> min 7 (length seven_classes)
   \<and> seven_classes \<notin> set (map (\<lambda>e. fst (snd (snd e)))
                              (all_combinations_with_score [] [] seven_classes))"
proof -
  have "\<not> has_time_conflict seven_classes" "has_unique_classes seven_classes"
    by code_simp+
  moreover have "length seven_classes = 7"
    by (simp add: seven_classes_def)
  moreover have "seven_classes \<notin> set (map (\<lambda>e. fst (snd (snd e)))
                              (all_combinations_with_score [] [] seven_classes))"
  proof
    assume "seven_classes \<in> set (map (\<lambda>e. fst (snd (snd e)))
                              (all_combinations_with_score [] [] seven_classes))"
    then obtain e where "e \<in> set (all_combinations_with_score [] [] seven_classes)"
      and "fst (snd (snd e)) = seven_classes"
      by auto
    with enumerated_combo_length[of e "[]" "[]" seven_classes]
    have "length seven_classes \<le> 6"
      by simp
    then show False
      by (simp add: seven_classes_def)
  qed
  ultimately show ?thesis
    by simp
qed

section \<open>Score and size\<close>

text \<open>
  C6.  Putting one more class \<open>s\<close> anywhere into a combination \<open>xs @ ys\<close> gives a
  strictly higher score, for any mandatory classes and free days.  This holds for every
  class \<open>s\<close>, so in particular for one that conflicts with no class of the combination
  and has a name of its own: the 1000 points for the extra class outweigh the 500
  points that may be lost for the free days, and the two mandatory terms cannot fall.
\<close>

theorem larger_combination_scores_higher:
  "fst (scored_entry mandatory free_days (length (xs @ ys)) (xs @ ys))
     < fst (scored_entry mandatory free_days (length (xs @ s # ys)) (xs @ s # ys))"
  by (auto simp: scored_entry_def Let_def has_free_days_def list_all_iff list_ex_iff)

section \<open>Runs that store nothing\<close>

text \<open>
  C7, as the code has it.  With no classes the run shows a warning and returns; it
  raises nothing and leaves the session state as it was, at both guards: the one on
  the classes read for the id and the one on the classes kept for generation.
\<close>

theorem no_classes_leaves_state:
  "timetable_creator [] mandatory free_days generate_button st = (Some No_classes_found, st)
   \<and> generate_schedules mandatory free_days [] st = (Select_at_least_one_class, st)"
  by (simp add: timetable_creator_def generate_schedules_def)

text \<open>
  C7 as stated fails: started with no stored list, a run with no classes ends with no
  stored list, not with an empty one.
\<close>

theorem no_classes_result_set_unset:
  "all_schedule_options
     (snd (timetable_creator ([] :: clock class_entry list) [] [] True
             \<lparr>all_schedule_options = None, current_schedule_index = None\<rparr>))
   \<noteq> Some []"
  by (simp add: timetable_creator_def)

section \<open>A class against itself\<close>

text \<open>
  C8, as the code has it.  \<^verbatim>\<open>has_conflict\<close> compares sessions only and knows no
  identity of classes: a class conflicts with itself exactly when one of its sessions
  starts before it ends, which every well-formed session does.
\<close>

theorem self_conflict_iff:
  "has_conflict s s \<longleftrightarrow> list_ex (\<lambda>m. start_time m < end_time m) (schedule s)"
proof
  assume "has_conflict s s"
  then obtain a b where "a \<in> set (schedule s)" and "b \<in> set (schedule s)"
    and "times_overlap (start_time a) (end_time a) (start_time b) (end_time b)"
    unfolding has_conflict_iff by blast
  then have "a \<in> set (schedule s)" and "start_time a < end_time a"
    by (simp_all add: times_overlap_iff)
  then show "list_ex (\<lambda>m. start_time m < end_time m) (schedule s)"
    unfolding list_ex_iff by blast
next
  assume "list_ex (\<lambda>m. start_time m < end_time m) (schedule s)"
  then obtain m where m: "m \<in> set (schedule s)" and "start_time m < end_time m"
    unfolding list_ex_iff by blast
  then have "times_overlap (start_time m) (end_time m) (start_time m) (end_time m)"
    by (simp add: times_overlap_iff)
  with m show "has_conflict s s"
    unfolding has_conflict_iff by blast
qed

text \<open>C8 as stated fails: \<open>M1\<close>, with one session, conflicts with itself.\<close>

theorem self_conflict_M1: "has_conflict M1 M1"
  by (simp add: has_conflict_def times_overlap_def M1_def mon_9_10_def)

section \<open>Time slots\<close>

text \<open>
  C9, as the code has it.  The time slots are the different pairs (start, end) of the
  sessions of the given classes, each once, in ascending order of the start.  The day
  is not part of a slot.
\<close>

theorem time_slots_are_start_end_pairs:
  "set (get_unique_time_slots classes)
     = (\<Union>cls \<in> set classes. (\<lambda>s. (start_time s, end_time s)) ` set (schedule cls))
   \<and> distinct (get_unique_time_slots classes)
   \<and> sorted (map fst (get_unique_time_slots classes))"
  by (simp add: get_unique_time_slots_def)

text \<open>
  C9 as stated fails: \<open>M1\<close> meets on Monday and \<open>M3\<close> on Tuesday, both from 09:00 to
  10:00, and together they have one time slot, not two.
\<close>

theorem same_times_two_days_one_slot:
  "day mon_9_10 \<noteq> day tue_9_10
   \<and> get_unique_time_slots [M1, M3] = [((9, 0), (10, 0))]"
  by (simp add: get_unique_time_slots_def M1_def M3_def mon_9_10_def tue_9_10_def)

end
